theory Spec2Isabelle
  imports Complex_Main
begin

section \<open>Rings, errors and the Sage objects of \<open>polyhedron_tools/misc.py\<close>\<close>

text \<open>
  The module works on Sage objects: base rings (\<open>QQ\<close>, \<open>RDF\<close>), dense matrices and
  vectors, \<open>Polyhedron\<close> objects and linear programs. Numbers are modelled as
  \<^typ>\<open>real\<close>; the base ring of a matrix or vector is kept as a tag beside its entries.
  The rounding that a conversion into \<open>RDF\<close> performs on a number is not modelled:
  \<open>ring_cast\<close> keeps the value and only the tag of the container changes.
\<close>

datatype ring = QQ | RDF | OtherRing string

datatype error =
    ValueError string
  | NameError string
  | IndexError
  | TypeError string
  | AttributeError string
  | SolverException string

definition ring_cast :: "ring \<Rightarrow> real \<Rightarrow> real" where
  "ring_cast R x = x"

record sage_matrix =
  mat_ring :: ring
  mat_ncols :: nat
  mat_rows :: "real list list"

record sage_vector =
  vec_ring :: ring
  vec_entries :: "real list"

definition nrows :: "sage_matrix \<Rightarrow> nat" where
  "nrows M = length (mat_rows M)"

fun rows_of_length :: "nat \<Rightarrow> real list list \<Rightarrow> bool" where
  "rows_of_length n [] = True"
| "rows_of_length n (r # rs) = (length r = n \<and> rows_of_length n rs)"

text \<open>
  \<open>matrix(R, rows)\<close>: the matrix over \<open>R\<close> with the given rows, each entry converted
  into \<open>R\<close>; no rows give the \<open>0 \<times> 0\<close> matrix, rows of different lengths are refused.
\<close>

definition matrix :: "ring \<Rightarrow> real list list \<Rightarrow> error + sage_matrix" where
  "matrix R rws =
     (case rws of
        [] \<Rightarrow> Inr \<lparr>mat_ring = R, mat_ncols = 0, mat_rows = []\<rparr>
      | r # _ \<Rightarrow>
          if rows_of_length (length r) rws
          then Inr \<lparr>mat_ring = R, mat_ncols = length r, mat_rows = map (map (ring_cast R)) rws\<rparr>
          else Inl (TypeError ''rows of a matrix must have the same length''))"

text \<open>\<open>vector(R, entries)\<close>: the vector over \<open>R\<close> with the given entries.\<close>

definition vector :: "ring \<Rightarrow> real list \<Rightarrow> sage_vector" where
  "vector R xs = \<lparr>vec_ring = R, vec_entries = map (ring_cast R) xs\<rparr>"

text \<open>
  A generator of the H-representation: \<open>pigen.is_equation()\<close> and \<open>pigen.vector()\<close>,
  the vector being \<open>[\<beta>, a\<^sub>1, \<dots>, a\<^sub>n]\<close> for \<open>a\<cdot>x + \<beta> \<ge> 0\<close> (or \<open>= 0\<close> for an equation).
\<close>

record Hrep_gen =
  is_equation :: bool
  gen_vector :: "real list"

text \<open>
  A \<open>Polyhedron\<close> object as far as the module looks at it: its base ring, its ambient
  dimension, the generators of its H-representation, its list of vertices and what
  \<open>is_empty()\<close> reports. The object comes from Sage's double-description backend.
\<close>

record polyhedron =
  base_ring :: ring
  ambient_dim :: nat
  Hrepresentation :: "Hrep_gen list"
  vertices_list :: "real list list"
  is_empty :: bool

fun gens_of_length :: "nat \<Rightarrow> Hrep_gen list \<Rightarrow> bool" where
  "gens_of_length n [] = True"
| "gens_of_length n (g # gs) = (length (gen_vector g) = n \<and> gens_of_length n gs)"

text \<open>Every generator of a Sage polyhedron has one coefficient per coordinate and the
  constant term in front.\<close>

definition wf_polyhedron :: "polyhedron \<Rightarrow> bool" where
  "wf_polyhedron P = gens_of_length (Suc (ambient_dim P)) (Hrepresentation P)"

subsection \<open>The sets that constraints describe\<close>

fun dot :: "real list \<Rightarrow> real list \<Rightarrow> real" where
  "dot (a # as) (x # xs) = a * x + dot as xs"
| "dot _ _ = 0"

definition neg :: "real list \<Rightarrow> real list" where
  "neg v = map uminus v"

text \<open>A point satisfies a generator \<open>[\<beta>, a]\<close> when \<open>a\<cdot>x + \<beta> \<ge> 0\<close>, with equality for an
  equation.\<close>

definition gen_holds :: "Hrep_gen \<Rightarrow> real list \<Rightarrow> bool" where
  "gen_holds g x =
     (case gen_vector g of
        [] \<Rightarrow> False
      | \<beta> # a \<Rightarrow> if is_equation g then dot a x + \<beta> = 0 else 0 \<le> dot a x + \<beta>)"

fun gens_hold :: "Hrep_gen list \<Rightarrow> real list \<Rightarrow> bool" where
  "gens_hold [] x = True"
| "gens_hold (g # gs) x = (gen_holds g x \<and> gens_hold gs x)"

definition in_polyhedron :: "polyhedron \<Rightarrow> real list \<Rightarrow> bool" where
  "in_polyhedron P x = (length x = ambient_dim P \<and> gens_hold (Hrepresentation P) x)"

text \<open>A point satisfies \<open>Ax \<le> b\<close> when every row does.\<close>

fun rows_hold :: "real list list \<Rightarrow> real list \<Rightarrow> real list \<Rightarrow> bool" where
  "rows_hold (r # rs) (\<beta> # bs) x = (dot r x \<le> \<beta> \<and> rows_hold rs bs x)"
| "rows_hold _ _ x = True"

definition in_Hrep :: "sage_matrix \<Rightarrow> sage_vector \<Rightarrow> real list \<Rightarrow> bool" where
  "in_Hrep A b x = (length x = mat_ncols A \<and> rows_hold (mat_rows A) (vec_entries b) x)"

section \<open>\<open>polyhedron_to_Hrep\<close>\<close>

text \<open>
  The result is the Python list \<open>[A, b]\<close>, or \<open>[A, b, Aeq, beq]\<close> with
  \<open>separate_equality_constraints\<close>.
\<close>

datatype hrep_out =
    Hrep2 sage_matrix sage_vector
  | Hrep4 sage_matrix sage_vector sage_matrix sage_vector

text \<open>
  The loop of the default mode, as the pairs \<open>(row appended to A, entry appended to b)\<close>
  in order. \<open>pi_vec[0]\<close> raises on an empty vector.
\<close>

fun to_Hrep_default :: "Hrep_gen list \<Rightarrow> error + (real list \<times> real) list" where
  "to_Hrep_default [] = Inr []"
| "to_Hrep_default (pigen # P_gen) =
     (case gen_vector pigen of
        [] \<Rightarrow> Inl IndexError
      | pi0 # pi_tail \<Rightarrow>
          (case to_Hrep_default P_gen of
             Inl e \<Rightarrow> Inl e
           | Inr rest \<Rightarrow>
               if is_equation pigen
               then Inr ((neg pi_tail, pi0) # (pi_tail, pi0) # rest)
               else Inr ((neg pi_tail, pi0) # rest)))"

text \<open>
  The loop of the separate mode: the pairs appended to \<open>(A, b)\<close> and those appended to
  \<open>(Aeq, beq)\<close>.
\<close>

fun to_Hrep_separate ::
  "Hrep_gen list \<Rightarrow> error + ((real list \<times> real) list \<times> (real list \<times> real) list)" where
  "to_Hrep_separate [] = Inr ([], [])"
| "to_Hrep_separate (pigen # P_gen) =
     (case gen_vector pigen of
        [] \<Rightarrow> Inl IndexError
      | pi0 # pi_tail \<Rightarrow>
          (case to_Hrep_separate P_gen of
             Inl e \<Rightarrow> Inl e
           | Inr (ineqs, eqs) \<Rightarrow>
               if is_equation pigen
               then Inr (ineqs, (neg pi_tail, pi0) # eqs)
               else Inr ((neg pi_tail, pi0) # ineqs, eqs)))"

definition polyhedron_to_Hrep :: "polyhedron \<Rightarrow> bool \<Rightarrow> error + hrep_out" where
  "polyhedron_to_Hrep P separate_equality_constraints =
     (if \<not> separate_equality_constraints then
        (case to_Hrep_default (Hrepresentation P) of
           Inl e \<Rightarrow> Inl e
         | Inr Ab \<Rightarrow>
             (case matrix RDF (map fst Ab) of
                Inl e \<Rightarrow> Inl e
              | Inr A \<Rightarrow> Inr (Hrep2 A (vector RDF (map snd Ab)))))
      else
        (case to_Hrep_separate (Hrepresentation P) of
           Inl e \<Rightarrow> Inl e
         | Inr (Ab, Abeq) \<Rightarrow>
             (case matrix RDF (map fst Ab) of
                Inl e \<Rightarrow> Inl e
              | Inr A \<Rightarrow>
                  (case matrix RDF (map fst Abeq) of
                     Inl e \<Rightarrow> Inl e
                   | Inr Aeq \<Rightarrow>
                       Inr (Hrep4 A (vector RDF (map snd Ab)) Aeq (vector RDF (map snd Abeq)))))))"

fun out_rings :: "hrep_out \<Rightarrow> ring list" where
  "out_rings (Hrep2 A b) = [mat_ring A, vec_ring b]"
| "out_rings (Hrep4 A b Aeq beq) = [mat_ring A, vec_ring b, mat_ring Aeq, vec_ring beq]"

section \<open>\<open>polyhedron_from_Hrep\<close>\<close>

text \<open>
  \<open>A\<close> is a Sage matrix or a two-dimensional numpy array (its second dimension
  \<open>shape[1]\<close> and its rows, each of that length); \<open>b\<close> is a Sage vector or a numpy
  array.
\<close>

record ndarray =
  nd_shape1 :: nat
  nd_data :: "real list list"

datatype matrix_arg = SageMatrix sage_matrix | NumpyMatrix ndarray

datatype vector_arg = SageVector sage_vector | NumpyVector "real list"

fun arg_entries :: "vector_arg \<Rightarrow> real list" where
  "arg_entries (SageVector b) = vec_entries b"
| "arg_entries (NumpyVector b) = b"

text \<open>
  The names bound at module level: the imports of lines 29 to 41 and the functions the
  module defines. A call of a name that is neither among them nor a Python builtin raises
  \<open>NameError\<close>; \<open>copy\<close> is not a builtin.
\<close>

definition module_globals :: "string list" where
  "module_globals =
     [''QQ'', ''RDF'', ''Polyhedron'', ''matrix'', ''vector'', ''zero_vector'',
      ''identity_matrix'', ''_make_listlist'', ''sqrt'', ''oo'',
      ''polyhedron_to_Hrep'', ''polyhedron_from_Hrep'', ''chebyshev_center'', ''radius'',
      ''support_function'', ''support_function_ellipsoid'', ''BoxInfty'',
      ''opposite_polyhedron'', ''diameter_vertex_enumeration'',
      ''diameter_support_function'']"

definition py_copy :: "'a \<Rightarrow> error + 'a" where
  "py_copy x = (if ''copy'' \<in> set module_globals then Inr x else Inl (NameError ''copy''))"

text \<open>
  The numpy branch for \<open>RDF\<close> (lines 245 to 256): \<open>vector(RDF, m, [RDF(bi) for bi in b])\<close>
  needs exactly \<open>m\<close> entries.
\<close>

definition numpy_to_RDF :: "ndarray \<Rightarrow> vector_arg \<Rightarrow> error + (sage_matrix \<times> sage_vector)" where
  "numpy_to_RDF A b =
     (let m = length (nd_data A); n = nd_shape1 A;
          b_list = map (ring_cast RDF) (arg_entries b)
      in if length b_list \<noteq> m then Inl (TypeError ''vector of the wrong degree'')
         else
           (let b_RDF = \<lparr>vec_ring = RDF, vec_entries = b_list\<rparr>;
                A_RDF = \<lparr>mat_ring = RDF, mat_ncols = n,
                         mat_rows = map (map (ring_cast RDF)) (nd_data A)\<rparr>
            in case py_copy A_RDF of
                 Inl e \<Rightarrow> Inl e
               | Inr A' \<Rightarrow>
                   (case py_copy b_RDF of
                      Inl e \<Rightarrow> Inl e
                    | Inr b' \<Rightarrow> Inr (A', b'))))"

text \<open>
  The numpy branch for \<open>QQ\<close> (lines 276 to 287): \<open>[QQ(b[i]) for i in range(m)]\<close> reads
  the first \<open>m\<close> entries of \<open>b\<close>.
\<close>

definition numpy_to_QQ :: "ndarray \<Rightarrow> vector_arg \<Rightarrow> error + (sage_matrix \<times> sage_vector)" where
  "numpy_to_QQ A b =
     (let m = length (nd_data A); n = nd_shape1 A
      in if length (arg_entries b) < m then Inl IndexError
         else
           (let b_QQ = \<lparr>vec_ring = QQ, vec_entries = map (ring_cast QQ) (take m (arg_entries b))\<rparr>;
                A_QQ = \<lparr>mat_ring = QQ, mat_ncols = n,
                        mat_rows = map (map (ring_cast QQ)) (nd_data A)\<rparr>
            in case py_copy A_QQ of
                 Inl e \<Rightarrow> Inl e
               | Inr A' \<Rightarrow>
                   (case py_copy b_QQ of
                      Inl e \<Rightarrow> Inl e
                    | Inr b' \<Rightarrow> Inr (A', b'))))"

text \<open>
  The loop that builds \<open>ieqs_list\<close>: row \<open>i\<close> of \<open>A\<close> negated, with \<open>b[i]\<close> inserted
  in front.
\<close>

fun ieqs_list_of :: "real list list \<Rightarrow> real list \<Rightarrow> error + real list list" where
  "ieqs_list_of [] b = Inr []"
| "ieqs_list_of (row # rows) [] = Inl IndexError"
| "ieqs_list_of (row # rows) (bi # b) =
     (case ieqs_list_of rows b of
        Inl e \<Rightarrow> Inl e
      | Inr rest \<Rightarrow> Inr ((bi # neg row) # rest))"

text \<open>
  Sage's constructor \<open>Polyhedron(ieqs, base_ring, ambient_dim, backend)\<close> is outside the
  module; the functions that call it take it as their first argument.
\<close>

type_synonym polyhedron_constructor =
  "real list list \<Rightarrow> ring \<Rightarrow> nat \<Rightarrow> string \<Rightarrow> error + polyhedron"

text \<open>
  Lines 258 to 272 and 289 to 306. \<open>A.change_ring\<close> and \<open>b.change_ring\<close> return a new
  object that the code drops, so they change nothing; \<open>b.base_ring()\<close> does not exist on
  a numpy array.
\<close>

definition from_Hrep_sage ::
  "polyhedron_constructor \<Rightarrow> sage_matrix \<Rightarrow> vector_arg \<Rightarrow> ring \<Rightarrow> string \<Rightarrow> error + polyhedron" where
  "from_Hrep_sage Polyhedron A b R backend =
     (case b of
        NumpyVector _ \<Rightarrow> Inl (AttributeError ''base_ring'')
      | SageVector bv \<Rightarrow>
          (case ieqs_list_of (mat_rows A) (vec_entries bv) of
             Inl e \<Rightarrow> Inl e
           | Inr ieqs_list \<Rightarrow> Polyhedron ieqs_list R (mat_ncols A) backend))"

definition polyhedron_from_Hrep ::
  "polyhedron_constructor \<Rightarrow> matrix_arg \<Rightarrow> vector_arg \<Rightarrow> ring \<Rightarrow> error + polyhedron" where
  "polyhedron_from_Hrep Polyhedron A b R =
     (if R = RDF then
        (case A of
           NumpyMatrix nd \<Rightarrow>
             (case numpy_to_RDF nd b of
                Inl e \<Rightarrow> Inl e
              | Inr (A', b') \<Rightarrow> from_Hrep_sage Polyhedron A' (SageVector b') RDF ''cdd'')
         | SageMatrix M \<Rightarrow> from_Hrep_sage Polyhedron M b RDF ''cdd'')
      else if R = QQ then
        (case A of
           NumpyMatrix nd \<Rightarrow>
             (case numpy_to_QQ nd b of
                Inl e \<Rightarrow> Inl e
              | Inr (A', b') \<Rightarrow> from_Hrep_sage Polyhedron A' (SageVector b') QQ ''ppl'')
         | SageMatrix M \<Rightarrow> from_Hrep_sage Polyhedron M b QQ ''ppl'')
      else Inl (ValueError ''Base ring not supported. Try with RDF or QQ.''))"

section \<open>Linear programs\<close>

text \<open>
  A \<open>MixedIntegerLinearProgram\<close> as the module uses it: the variables are numbered
  \<open>0, 1, \<dots>\<close>, the objective is a list of coefficients, a constraint is
  \<open>(row, \<beta>)\<close> for \<open>row\<cdot>x \<le> \<beta>\<close>, and \<open>lp_solve_calls\<close> counts the calls of \<open>solve\<close>.
  The solver is outside the module: a function from the program to an error or to the
  optimal value with the values of the variables.
\<close>

record lp_model =
  lp_maximization :: bool
  lp_solver :: string
  lp_nvars :: nat
  lp_objective :: "real list"
  lp_constraints :: "(real list \<times> real) list"
  lp_solve_calls :: nat

type_synonym lp_oracle = "lp_model \<Rightarrow> error + (real \<times> real list)"

definition new_lp :: "bool \<Rightarrow> string \<Rightarrow> lp_model" where
  "new_lp maxim solver =
     \<lparr>lp_maximization = maxim, lp_solver = solver, lp_nvars = 0, lp_objective = [],
      lp_constraints = [], lp_solve_calls = 0\<rparr>"

fun constraints_hold :: "(real list \<times> real) list \<Rightarrow> real list \<Rightarrow> bool" where
  "constraints_hold [] x = True"
| "constraints_hold ((row, \<beta>) # cs) x = (dot row x \<le> \<beta> \<and> constraints_hold cs x)"

definition lp_feasible :: "lp_model \<Rightarrow> real list \<Rightarrow> bool" where
  "lp_feasible p x = (length x = lp_nvars p \<and> constraints_hold (lp_constraints p) x)"

text \<open>What a correct solver returns for a maximisation: a feasible point, its objective
  value, and no feasible point does better.\<close>

definition lp_optimal :: "lp_model \<Rightarrow> real \<times> real list \<Rightarrow> bool" where
  "lp_optimal p r =
     (lp_feasible p (snd r) \<and> fst r = dot (lp_objective p) (snd r) \<and>
      (\<forall>y. lp_feasible p y \<longrightarrow> dot (lp_objective p) y \<le> fst r))"

section \<open>\<open>chebyshev_center\<close>\<close>

text \<open>
  The three arguments are optional and untyped: each is \<open>None\<close> or a polyhedron, a
  matrix or a vector. The result is a vector, or the empty list the code returns when
  the sizes of \<open>A\<close> and \<open>b\<close> disagree. Beside the result the model returns the linear
  program as the call leaves it (\<open>None\<close> when none was created).
\<close>

datatype pyval = PyPolyhedron polyhedron | PyMatrix sage_matrix | PyVector sage_vector

datatype cheby_result = EmptyList | Center sage_vector

datatype cheby_input = GotP pyval | GotAb pyval pyval | GotNothing

text \<open>Lines 333 to 341; in the second case the code swaps: \<open>b, A = A, P\<close>.\<close>

definition chebyshev_parse :: "pyval option \<Rightarrow> pyval option \<Rightarrow> pyval option \<Rightarrow> cheby_input" where
  "chebyshev_parse P A b =
     (case P of
        Some p \<Rightarrow>
          (case (A, b) of
             (None, None) \<Rightarrow> GotP p
           | (Some a, None) \<Rightarrow> GotAb p a
           | _ \<Rightarrow> GotNothing)
      | None \<Rightarrow>
          (case (A, b) of
             (Some a, Some b') \<Rightarrow> GotAb a b'
           | _ \<Rightarrow> GotNothing))"

text \<open>\<open>vector(entries)\<close> takes the ring of its entries; it is \<open>ZZ\<close> when there is none.\<close>

definition vector_of_list :: "ring \<Rightarrow> real list \<Rightarrow> sage_vector" where
  "vector_of_list R xs =
     \<lparr>vec_ring = (if xs = [] then OtherRing ''ZZ'' else R), vec_entries = map (ring_cast R) xs\<rparr>"

text \<open>
  The constraint of row \<open>v\<close> with bound \<open>b[i]\<close> (line 358): the variables are
  \<open>x[0], \<dots>, x[m-1]\<close> and then \<open>r[0]\<close>, whose coefficient is the Euclidean norm of \<open>v\<close>.
\<close>

definition chebyshev_constraint :: "real list \<Rightarrow> real \<Rightarrow> real list \<times> real" where
  "chebyshev_constraint v bi = (v @ [sqrt (dot v v)], bi)"

text \<open>The solver named when the caller names none.\<close>

definition default_solver :: string where
  "default_solver = []"

text \<open>
  Lines 347 to 363, for a matrix \<open>A\<close> and a vector \<open>b\<close>; \<open>b.length()\<close> is the number
  of entries of \<open>b\<close>. The program is created before the sizes are compared.
\<close>

definition chebyshev_solve ::
  "lp_oracle \<Rightarrow> sage_matrix \<Rightarrow> sage_vector \<Rightarrow> (error + cheby_result) \<times> lp_model option" where
  "chebyshev_solve oracle A b =
     (let base_ring = mat_ring A;
          p = new_lp True default_solver;
          n = nrows A;
          m = mat_ncols A
      in if \<not> n = length (vec_entries b) then (Inr EmptyList, Some p)
         else
           (let p1 = p\<lparr>lp_constraints := map2 chebyshev_constraint (mat_rows A) (vec_entries b),
                       lp_nvars := Suc m\<rparr>;
                p2 = p1\<lparr>lp_objective := replicate m 0 @ [1]\<rparr>;
                p3 = p2\<lparr>lp_solve_calls := Suc (lp_solve_calls p2)\<rparr>
            in case oracle p2 of
                 Inl e \<Rightarrow> (Inl e, Some p3)
               | Inr (oval, vals) \<Rightarrow>
                   (Inr (Center (vector_of_list base_ring (take m vals))), Some p3)))"

definition chebyshev_center ::
  "lp_oracle \<Rightarrow> pyval option \<Rightarrow> pyval option \<Rightarrow> pyval option \<Rightarrow>
     (error + cheby_result) \<times> lp_model option" where
  "chebyshev_center oracle P A b =
     (case chebyshev_parse P A b of
        GotNothing \<Rightarrow>
          (Inl (ValueError
             ''The input should be either as a Polyhedron, P, or as matrices, [A, b].''), None)
      | GotP p \<Rightarrow>
          (case p of
             PyPolyhedron poly \<Rightarrow>
               (case polyhedron_to_Hrep poly False of
                  Inl e \<Rightarrow> (Inl e, None)
                | Inr (Hrep2 A' b') \<Rightarrow> chebyshev_solve oracle A' b'
                | Inr (Hrep4 A' b' Aeq beq) \<Rightarrow>
                    (Inl (ValueError ''too many values to unpack''), None))
           | _ \<Rightarrow> (Inl (AttributeError ''Hrep_generator''), None))
      | GotAb a b' \<Rightarrow>
          (case a of
             PyMatrix M \<Rightarrow>
               (case b' of
                  PyVector bv \<Rightarrow> chebyshev_solve oracle M bv
                | _ \<Rightarrow> (Inl (AttributeError ''length''), Some (new_lp True default_solver)))
           | _ \<Rightarrow> (Inl (AttributeError ''nrows''), Some (new_lp True default_solver))))"

section \<open>\<open>support_function\<close>\<close>

text \<open>
  \<open>P\<close> is the list \<open>[A, b]\<close> or a polyhedron. The result is the integer \<open>0\<close> of the
  short cut for an empty polyhedron, the optimal value, or the pair of the optimal value
  and the optimiser (the values of \<open>x[0], x[1], \<dots>\<close>). \<open>verbose\<close> only prints and is
  left out.
\<close>

datatype poly_arg = HrepList sage_matrix sage_vector | PolyObj polyhedron

datatype sf_result = IntZero | Oval real | OvalXopt real "real list"

fun sf_value :: "sf_result \<Rightarrow> real" where
  "sf_value IntZero = 0"
| "sf_value (Oval v) = v"
| "sf_value (OvalXopt v x) = v"

text \<open>
  The loop of lines 472 to 476 on a matrix with \<open>n\<close> columns: every generator gives the
  row \<open>-pi_vec[1:]\<close> and the bound \<open>pi_vec[0]\<close>, whether it is an equation or not;
  \<open>set_row\<close> refuses a row of another length.
\<close>

fun sf_rows :: "nat \<Rightarrow> Hrep_gen list \<Rightarrow> error + (real list \<times> real) list" where
  "sf_rows n [] = Inr []"
| "sf_rows n (pigen # P_gen) =
     (case gen_vector pigen of
        [] \<Rightarrow> (if n = 0 then Inl IndexError else Inl (TypeError ''set_row: wrong length''))
      | pi0 # pi_tail \<Rightarrow>
          if length pi_tail \<noteq> n then Inl (TypeError ''set_row: wrong length'')
          else
            (case sf_rows n P_gen of
               Inl e \<Rightarrow> Inl e
             | Inr rest \<Rightarrow> Inr ((neg pi_tail, pi0) # rest)))"

text \<open>
  Lines 458 to 476: the pair \<open>(A, b)\<close> the program is built from, or \<open>None\<close> for the
  short cut of an empty polyhedron. \<open>P.Hrepresentation()[0]\<close> raises when there is no
  generator.
\<close>

definition sf_Hrep :: "poly_arg \<Rightarrow> error + (sage_matrix \<times> sage_vector) option" where
  "sf_Hrep P =
     (case P of
        HrepList A b \<Rightarrow> Inr (Some (A, b))
      | PolyObj Q \<Rightarrow>
          if is_empty Q then Inr None
          else
            (case Hrepresentation Q of
               [] \<Rightarrow> Inl IndexError
             | g0 # _ \<Rightarrow>
                 (case gen_vector g0 of
                    [] \<Rightarrow> Inl (ValueError ''negative number of columns'')
                  | _ # tail0 \<Rightarrow>
                      (let n = length tail0 in
                       case sf_rows n (Hrepresentation Q) of
                         Inl e \<Rightarrow> Inl e
                       | Inr Ab \<Rightarrow>
                           Inr (Some (\<lparr>mat_ring = base_ring Q, mat_ncols = n, mat_rows = map fst Ab\<rparr>,
                                      \<lparr>vec_ring = base_ring Q, vec_entries = map snd Ab\<rparr>))))))"

text \<open>
  Lines 478 to 485: the program handed to the solver. The objective uses
  \<open>x[0], \<dots>, x[len(d)-1]\<close> and \<open>A * x\<close> uses one variable per column of \<open>A\<close>.
\<close>

definition support_lp :: "sage_matrix \<Rightarrow> sage_vector \<Rightarrow> real list \<Rightarrow> string \<Rightarrow> lp_model" where
  "support_lp A b d solver =
     (new_lp True solver)
       \<lparr>lp_nvars := max (length d) (mat_ncols A),
        lp_objective := d,
        lp_constraints := zip (mat_rows A) (vec_entries b)\<rparr>"

definition support_function ::
  "lp_oracle \<Rightarrow> poly_arg \<Rightarrow> real list \<Rightarrow> bool \<Rightarrow> string \<Rightarrow>
     (error + sf_result) \<times> lp_model option" where
  "support_function oracle P d return_xopt solver =
     (case sf_Hrep P of
        Inl e \<Rightarrow> (Inl e, None)
      | Inr None \<Rightarrow> (Inr IntZero, None)
      | Inr (Some (A, b)) \<Rightarrow>
          if nrows A \<noteq> length (vec_entries b)
          then (Inl (TypeError ''A * x <= b: sizes differ''),
                Some ((new_lp True solver)\<lparr>lp_nvars := length d, lp_objective := d\<rparr>))
          else
            (let s_LP = support_lp A b d solver;
                 solved = s_LP\<lparr>lp_solve_calls := Suc (lp_solve_calls s_LP)\<rparr>
             in case oracle s_LP of
                  Inl e \<Rightarrow> (Inl e, Some solved)
                | Inr (oval, xopt) \<Rightarrow>
                    if return_xopt = True then (Inr (OvalXopt oval xopt), Some solved)
                    else (Inr (Oval oval), Some solved)))"

section \<open>\<open>BoxInfty\<close>\<close>

text \<open>
  The arguments \<open>lengths\<close>, \<open>center\<close> and \<open>radius\<close> are optional and untyped: a number, a
  list of numbers or a list of pairs. The result is a polyhedron, or \<open>[A, b]\<close> with
  \<open>return_HSpaceRep\<close>.
\<close>

definition unit_vec :: "nat \<Rightarrow> nat \<Rightarrow> real \<Rightarrow> real list" where
  "unit_vec n i c = (replicate n 0)[i := c]"

datatype pyarg = PyNum real | PyNumList "real list" | PyListList "real list list"

datatype box_result = BoxPolyhedron polyhedron | BoxHrep sage_matrix sage_vector

datatype box_input = GotCenterRadius pyarg pyarg | GotLengths pyarg | GotNeither

text \<open>Lines 576 to 584; in the second case \<open>radius = center; center = lengths\<close>.\<close>

definition BoxInfty_guess :: "pyarg option \<Rightarrow> pyarg option \<Rightarrow> pyarg option \<Rightarrow> box_input" where
  "BoxInfty_guess lengths center radius =
     (case lengths of
        Some l \<Rightarrow>
          (case (center, radius) of
             (None, None) \<Rightarrow> GotLengths l
           | (Some c, None) \<Rightarrow> GotCenterRadius l c
           | _ \<Rightarrow> GotNeither)
      | None \<Rightarrow>
          (case (center, radius) of
             (Some c, Some r) \<Rightarrow> GotCenterRadius c r
           | _ \<Rightarrow> GotNeither))"

text \<open>The loop of lines 598 to 610, from index \<open>i\<close> on, over the rest of \<open>center\<close>.\<close>

fun box_center_rows :: "nat \<Rightarrow> nat \<Rightarrow> real list \<Rightarrow> real \<Rightarrow> (real list \<times> real) list" where
  "box_center_rows ndim i [] radius = []"
| "box_center_rows ndim i (ci # cs) radius =
     (unit_vec ndim i 1, ci + radius) #
     (neg (unit_vec ndim i 1), - (ci - radius)) #
     box_center_rows ndim (Suc i) cs radius"

text \<open>The loop of lines 625 to 637; \<open>lengths[i][1]\<close> raises on a side with fewer than two
  numbers.\<close>

fun box_lengths_rows :: "nat \<Rightarrow> nat \<Rightarrow> real list list \<Rightarrow> error + (real list \<times> real) list" where
  "box_lengths_rows ndim i [] = Inr []"
| "box_lengths_rows ndim i (l # ls) =
     (case l of
        lo # hi # _ \<Rightarrow>
          (case box_lengths_rows ndim (Suc i) ls of
             Inl e \<Rightarrow> Inl e
           | Inr rest \<Rightarrow>
               Inr ((unit_vec ndim i 1, hi) # (neg (unit_vec ndim i 1), - lo) # rest))
      | _ \<Rightarrow> Inl IndexError)"

text \<open>Lines 587 to 640: the pair \<open>(A, b)\<close>.\<close>

definition BoxInfty_Hrep ::
  "pyarg option \<Rightarrow> pyarg option \<Rightarrow> pyarg option \<Rightarrow> ring \<Rightarrow> error + (sage_matrix \<times> sage_vector)" where
  "BoxInfty_Hrep lengths center radius R =
     (case BoxInfty_guess lengths center radius of
        GotCenterRadius c r \<Rightarrow>
          (case c of
             PyNumList xs \<Rightarrow>
               (case r of
                  PyNum rad \<Rightarrow>
                    (let center' = map (ring_cast R) xs;
                         radius' = ring_cast R rad;
                         ndim = length center';
                         Ab = box_center_rows ndim 0 center' radius'
                     in Inr (\<lparr>mat_ring = R, mat_ncols = ndim, mat_rows = map fst Ab\<rparr>,
                             \<lparr>vec_ring = R, vec_entries = map snd Ab\<rparr>))
                | _ \<Rightarrow> Inl (TypeError ''radius is not a number''))
           | _ \<Rightarrow> Inl (TypeError ''center is not a list of numbers''))
      | GotLengths l \<Rightarrow>
          (case l of
             PyListList ls \<Rightarrow>
               (let lengths' = map (map (ring_cast R)) ls;
                    ndim = length lengths'
                in case box_lengths_rows ndim 0 lengths' of
                     Inl e \<Rightarrow> Inl e
                   | Inr Ab \<Rightarrow>
                       Inr (\<lparr>mat_ring = R, mat_ncols = ndim, mat_rows = map fst Ab\<rparr>,
                            \<lparr>vec_ring = R, vec_entries = map snd Ab\<rparr>))
           | _ \<Rightarrow> Inl (TypeError ''lengths is not a list of pairs''))
      | GotNeither \<Rightarrow>
          Inl (ValueError ''You should specify either center and radius or length of the sides.''))"

definition BoxInfty ::
  "polyhedron_constructor \<Rightarrow> pyarg option \<Rightarrow> pyarg option \<Rightarrow> pyarg option \<Rightarrow> ring \<Rightarrow> bool \<Rightarrow>
     error + box_result" where
  "BoxInfty Polyhedron lengths center radius R return_HSpaceRep =
     (case BoxInfty_Hrep lengths center radius R of
        Inl e \<Rightarrow> Inl e
      | Inr (A, b) \<Rightarrow>
          if \<not> return_HSpaceRep then
            (case polyhedron_from_Hrep Polyhedron (SageMatrix A) (SageVector b) R of
               Inl e \<Rightarrow> Inl e
             | Inr P \<Rightarrow> Inr (BoxPolyhedron P))
          else Inr (BoxHrep A b))"

section \<open>\<open>radius\<close>\<close>

text \<open>The loop of lines 402 to 414 over the remaining indices, with the current \<open>r\<close>.\<close>

fun radius_loop ::
  "lp_oracle \<Rightarrow> sage_matrix \<Rightarrow> sage_vector \<Rightarrow> nat \<Rightarrow> nat list \<Rightarrow> real \<Rightarrow> error + real" where
  "radius_loop oracle A b n [] r = Inr r"
| "radius_loop oracle A b n (i # is) r =
     (case fst (support_function oracle (HrepList A b) (unit_vec n i 1) False ''GLPK'') of
        Inl e \<Rightarrow> Inl e
      | Inr sf \<Rightarrow>
          (let aux_sf = \<bar>sf_value sf\<bar>;
               r1 = (if aux_sf \<ge> r then aux_sf else r)
           in case fst (support_function oracle (HrepList A b) (unit_vec n i (- 1)) False ''GLPK'') of
                Inl e \<Rightarrow> Inl e
              | Inr sf' \<Rightarrow>
                  (let aux_sf' = \<bar>sf_value sf'\<bar>;
                       r2 = (if aux_sf' \<ge> r1 then aux_sf' else r1)
                   in radius_loop oracle A b n is r2)))"

text \<open>
  The body is guarded by \<open>type(P) == list\<close> and the function has no other
  \<open>return\<close>: for any other argument Python returns \<open>None\<close>.
\<close>

definition radius :: "lp_oracle \<Rightarrow> poly_arg \<Rightarrow> error + real option" where
  "radius oracle P =
     (case P of
        HrepList A b \<Rightarrow>
          (let n = mat_ncols A in
           case radius_loop oracle A b n [0..<n] 0 of
             Inl e \<Rightarrow> Inl e
           | Inr snorm \<Rightarrow> Inr (Some snorm))
      | PolyObj Q \<Rightarrow> Inr None)"

section \<open>\<open>diameter_vertex_enumeration\<close>\<close>

text \<open>
  The norm \<open>p\<close> is \<open>oo\<close> or a number. Sage's \<open>norm(p)\<close> of a vector is the largest
  absolute value for \<open>oo\<close> (Python's \<open>max\<close> raises on no entries) and the \<open>p\<close>-th root
  of the sum of the \<open>p\<close>-th powers of the absolute values for \<open>p \<ge> 1\<close>.
\<close>

datatype pnorm = Infinity | Pnorm real

definition vec_sub :: "real list \<Rightarrow> real list \<Rightarrow> real list" where
  "vec_sub v w = map2 (-) v w"

definition norm_p :: "pnorm \<Rightarrow> real list \<Rightarrow> error + real" where
  "norm_p p v =
     (let abs_self = map abs v in
      case p of
        Infinity \<Rightarrow>
          (case abs_self of
             [] \<Rightarrow> Inl (ValueError ''max() arg is an empty sequence'')
           | a # as \<Rightarrow> Inr (fold max as a))
      | Pnorm q \<Rightarrow>
          if q < 1 then Inl (ValueError ''p is not greater than or equal to 1'')
          else Inr ((\<Sum>a\<leftarrow>abs_self. a powr q) powr (1 / q)))"

text \<open>The inner loop over \<open>j\<close> and the outer loop over \<open>i\<close>, each with the current \<open>diam\<close>.\<close>

fun diameter_inner ::
  "pnorm \<Rightarrow> real list list \<Rightarrow> nat \<Rightarrow> nat list \<Rightarrow> real \<Rightarrow> error + real" where
  "diameter_inner p vlist i [] diam = Inr diam"
| "diameter_inner p vlist i (j # js) diam =
     (case norm_p p (vec_sub (vlist ! i) (vlist ! j)) of
        Inl e \<Rightarrow> Inl e
      | Inr dist_vi_vj \<Rightarrow> diameter_inner p vlist i js (max diam dist_vi_vj))"

fun diameter_outer ::
  "pnorm \<Rightarrow> real list list \<Rightarrow> nat \<Rightarrow> nat list \<Rightarrow> real \<Rightarrow> error + real" where
  "diameter_outer p vlist num_vertices [] diam = Inr diam"
| "diameter_outer p vlist num_vertices (i # is) diam =
     (case diameter_inner p vlist i [Suc i..<num_vertices] diam of
        Inl e \<Rightarrow> Inl e
      | Inr diam' \<Rightarrow> diameter_outer p vlist num_vertices is diam')"

definition diameter_vertex_enumeration :: "polyhedron \<Rightarrow> pnorm \<Rightarrow> error + real" where
  "diameter_vertex_enumeration P p =
     (let vlist = vertices_list P;
          num_vertices = length vlist
      in diameter_outer p vlist num_vertices [0..<num_vertices] 0)"

section \<open>Contracts of the parts outside the module\<close>

text \<open>
  The solver is exact on a program when it returns an optimal solution, and fails only
  when there is none.
\<close>

definition exact_on :: "lp_oracle \<Rightarrow> lp_model \<Rightarrow> bool" where
  "exact_on oracle p =
     (case oracle p of
        Inr r \<Rightarrow> lp_optimal p r
      | Inl e \<Rightarrow> \<not> (\<exists>r. lp_optimal p r))"

text \<open>The solver is exact on the program that \<open>support_function\<close> builds for \<open>P\<close> and
  \<open>d\<close>, when it builds one.\<close>

definition solver_exact_at :: "lp_oracle \<Rightarrow> poly_arg \<Rightarrow> real list \<Rightarrow> string \<Rightarrow> bool" where
  "solver_exact_at oracle P d solver =
     (case sf_Hrep P of
        Inr (Some (A, b)) \<Rightarrow> exact_on oracle (support_lp A b d solver)
      | _ \<Rightarrow> True)"

text \<open>
  What Sage's constructor promises for the polyhedron built from \<open>Ax \<le> b\<close>: the object
  has the dimension of \<open>A\<close>, its generators have one entry more than the dimension, it
  contains exactly the points with \<open>Ax \<le> b\<close>, and it reports itself empty exactly when it
  has no point. The choice, order and scaling of the generators are the backend's.
\<close>

definition represents :: "polyhedron \<Rightarrow> sage_matrix \<Rightarrow> sage_vector \<Rightarrow> bool" where
  "represents P A b =
     (ambient_dim P = mat_ncols A \<and> wf_polyhedron P \<and>
      (is_empty P \<longleftrightarrow> \<not> (\<exists>x. in_polyhedron P x)) \<and>
      (\<forall>x. in_polyhedron P x \<longleftrightarrow> in_Hrep A b x))"

text \<open>Directions: the multiple \<open>\<lambda>d\<close> and the sum \<open>d\<^sub>1 + d\<^sub>2\<close>.\<close>

definition scale_dir :: "real \<Rightarrow> real list \<Rightarrow> real list" where
  "scale_dir c d = map ((*) c) d"


section \<open>Elimination of a variable from a system of inequalities\<close>

text \<open>
  These definitions are not code of the module. They are used to prove that a program
  with a feasible point and a bounded objective has an optimal solution, which is what
  an exact solver then returns. A row is \<open>(a, \<beta>)\<close> for \<open>a\<cdot>x \<le> \<beta>\<close>. \<open>fit n a\<close> gives
  a row exactly \<open>n\<close> coefficients. \<open>fm\<close> eliminates the first variable: rows whose
  first coefficient is zero are kept, and every row that bounds the variable from above
  is combined with every row that bounds it from below. \<open>with_objective\<close> adds a
  variable \<open>t\<close> with \<open>t \<le> d\<cdot>x\<close>.
\<close>

definition fit :: "nat \<Rightarrow> real list \<Rightarrow> real list" where
  "fit n a = take n a @ replicate (n - length a) 0"








section \<open>Inputs of the examples\<close>

text \<open>The point \<open>{-1}\<close> of the line: Sage describes it by the equation \<open>x + 1 = 0\<close>.\<close>

definition point_polyhedron :: polyhedron where
  "point_polyhedron =
     \<lparr>base_ring = QQ, ambient_dim = 1,
      Hrepresentation = [\<lparr>is_equation = True, gen_vector = [1, 1]\<rparr>],
      vertices_list = [[- 1]], is_empty = False\<rparr>"

text \<open>The empty polyhedron of the line: Sage describes it by the equation \<open>-1 = 0\<close>.\<close>

definition empty_polyhedron :: polyhedron where
  "empty_polyhedron =
     \<lparr>base_ring = QQ, ambient_dim = 1,
      Hrepresentation = [\<lparr>is_equation = True, gen_vector = [- 1, 0]\<rparr>],
      vertices_list = [], is_empty = True\<rparr>"

text \<open>The interval \<open>[-1, 1]\<close> as \<open>[A, b]\<close>, and a solver for the programs over it with
  one variable.\<close>

definition interval_A :: sage_matrix where
  "interval_A = \<lparr>mat_ring = RDF, mat_ncols = 1, mat_rows = [[1], [- 1]]\<rparr>"

definition interval_b :: sage_vector where
  "interval_b = \<lparr>vec_ring = RDF, vec_entries = [1, 1]\<rparr>"

definition interval_oracle :: lp_oracle where
  "interval_oracle p =
     (case lp_objective p of
        [c] \<Rightarrow> (if 0 \<le> c then Inr (c, [1]) else Inr (- c, [- 1]))
      | _ \<Rightarrow> Inl (SolverException ''not a program over the interval''))"

definition failing_oracle :: lp_oracle where
  "failing_oracle p = Inl (SolverException ''no solver'')"



text \<open>
  A constructor that keeps the inequalities as they are given, for a set that is known
  to have a point; it computes no vertices.
\<close>

definition transparent_Polyhedron :: polyhedron_constructor where
  "transparent_Polyhedron ieqs R n backend =
     Inr \<lparr>base_ring = R, ambient_dim = n,
          Hrepresentation = map (\<lambda>v. \<lparr>is_equation = False, gen_vector = v\<rparr>) ieqs,
          vertices_list = [], is_empty = False\<rparr>"

text \<open>The box of center \<open>(1, 2, 3)\<close> and radius \<open>1\<close> as that constructor builds it, and a
  solver that answers \<open>9\<close> at \<open>(2, 3, 4)\<close>.\<close>

definition example_box :: polyhedron where
  "example_box =
     \<lparr>base_ring = QQ, ambient_dim = 3,
      Hrepresentation =
        [\<lparr>is_equation = False, gen_vector = [2, - 1, 0, 0]\<rparr>,
         \<lparr>is_equation = False, gen_vector = [0, 1, 0, 0]\<rparr>,
         \<lparr>is_equation = False, gen_vector = [3, 0, - 1, 0]\<rparr>,
         \<lparr>is_equation = False, gen_vector = [- 1, 0, 1, 0]\<rparr>,
         \<lparr>is_equation = False, gen_vector = [4, 0, 0, - 1]\<rparr>,
         \<lparr>is_equation = False, gen_vector = [- 2, 0, 0, 1]\<rparr>],
      vertices_list = [], is_empty = False\<rparr>"

definition box_oracle :: lp_oracle where
  "box_oracle p = Inr (9, [2, 3, 4])"

text \<open>The pair \<open>[A, b]\<close> of that box, and the box as a set of points.\<close>

definition box_A :: sage_matrix where
  "box_A = \<lparr>mat_ring = QQ, mat_ncols = 3,
            mat_rows = [[1, 0, 0], [- 1, 0, 0], [0, 1, 0], [0, - 1, 0], [0, 0, 1], [0, 0, - 1]]\<rparr>"

definition box_b :: sage_vector where
  "box_b = \<lparr>vec_ring = QQ, vec_entries = [2, 0, 3, - 1, 4, - 2]\<rparr>"

definition in_example_box :: "real list \<Rightarrow> bool" where
  "in_example_box x =
     (case x of
        [x1, x2, x3] \<Rightarrow> 0 \<le> x1 \<and> x1 \<le> 2 \<and> 1 \<le> x2 \<and> x2 \<le> 3 \<and> 2 \<le> x3 \<and> x3 \<le> 4
      | _ \<Rightarrow> False)"

text \<open>The rows that \<open>support_function\<close> extracts read every generator as an inequality.\<close>

definition gen_ineq :: "Hrep_gen \<Rightarrow> real list \<Rightarrow> bool" where
  "gen_ineq g x = (0 \<le> dot (tl (gen_vector g)) x + hd (gen_vector g))"

text \<open>
  Sage's \<open>s * polytopes.hypercube(n)\<close> is the cube \<open>[-s, s]\<^sup>n\<close>: its vertices are the
  points with every coordinate \<open>-s\<close> or \<open>s\<close>.
\<close>

fun cube_points :: "nat \<Rightarrow> real \<Rightarrow> real list list" where
  "cube_points 0 s = [[]]"
| "cube_points (Suc n) s = map ((#) (- s)) (cube_points n s) @ map ((#) s) (cube_points n s)"

definition scaled_hypercube :: "nat \<Rightarrow> real \<Rightarrow> polyhedron" where
  "scaled_hypercube n s =
     \<lparr>base_ring = OtherRing ''ZZ'', ambient_dim = n,
      Hrepresentation =
        concat (map (\<lambda>i. [\<lparr>is_equation = False, gen_vector = s # unit_vec n i 1\<rparr>,
                          \<lparr>is_equation = False, gen_vector = s # neg (unit_vec n i 1)\<rparr>]) [0..<n]),
      vertices_list = cube_points n s, is_empty = False\<rparr>"

section \<open>Properties of \<open>polyhedron_to_Hrep\<close>\<close>

lemma to_Hrep_default_rows:
  "gens_of_length (Suc n) gs \<Longrightarrow>
     \<exists>Ab. to_Hrep_default gs = Inr Ab \<and> rows_of_length n (map fst Ab)"
  by (induction gs) (auto simp: neg_def split: list.splits)

lemma to_Hrep_separate_rows:
  "gens_of_length (Suc n) gs \<Longrightarrow>
     \<exists>Ab Abeq. to_Hrep_separate gs = Inr (Ab, Abeq) \<and>
        rows_of_length n (map fst Ab) \<and> rows_of_length n (map fst Abeq)"
  by (induction gs) (auto simp: neg_def split: list.splits)

lemma matrix_of_rows:
  "rows_of_length n rws \<Longrightarrow> \<exists>A. matrix R rws = Inr A \<and> mat_ring A = R"
  by (cases rws) (auto simp: matrix_def)

text \<open>
  In the default mode an equation \<open>[\<beta>, a]\<close> gives the rows \<open>-a\<close> and \<open>a\<close>, both with
  the bound \<open>\<beta>\<close>.
\<close>

lemma to_Hrep_default_equation:
  "is_equation g \<Longrightarrow> gen_vector g = \<beta> # a \<Longrightarrow>
     to_Hrep_default [g] = Inr [(neg a, \<beta>), (a, \<beta>)]"
  by simp

text \<open>
  Claim C1. The default mode is meant to turn an equation into two opposing
  inequalities that describe the same set. For the point \<open>{-1}\<close>, given by the equation
  \<open>x + 1 = 0\<close>, the code returns the rows \<open>-1\<close> and \<open>1\<close> with the bounds \<open>1\<close> and
  \<open>1\<close>, that is \<open>-1 \<le> x \<le> 1\<close>: the origin satisfies \<open>Ax \<le> b\<close> and is not a point of the
  polyhedron. The bound of the second row is not negated.
\<close>

theorem polyhedron_to_Hrep_equation_keeps_bound:
  "polyhedron_to_Hrep point_polyhedron False =
     Inr (Hrep2 \<lparr>mat_ring = RDF, mat_ncols = 1, mat_rows = [[- 1], [1]]\<rparr>
                \<lparr>vec_ring = RDF, vec_entries = [1, 1]\<rparr>) \<and>
   in_Hrep \<lparr>mat_ring = RDF, mat_ncols = 1, mat_rows = [[- 1], [1]]\<rparr>
           \<lparr>vec_ring = RDF, vec_entries = [1, 1]\<rparr> [0] \<and>
   \<not> in_polyhedron point_polyhedron [0]"
  by (simp add: polyhedron_to_Hrep_def point_polyhedron_def matrix_def vector_def neg_def
      ring_cast_def in_Hrep_def in_polyhedron_def gen_holds_def)

text \<open>
  Claim C9. For every polyhedron whose generators have the length Sage gives them, the
  extraction returns, in both modes, and every matrix and vector it returns is over
  \<open>RDF\<close>, whatever the base ring of the polyhedron.
\<close>

theorem polyhedron_to_Hrep_over_RDF:
  assumes "wf_polyhedron P"
  shows "\<exists>out. polyhedron_to_Hrep P sep = Inr out \<and>
           out_rings out = (if sep then [RDF, RDF, RDF, RDF] else [RDF, RDF])"
proof (cases sep)
  case True
  from assms obtain Ab Abeq where s: "to_Hrep_separate (Hrepresentation P) = Inr (Ab, Abeq)"
    and r: "rows_of_length (ambient_dim P) (map fst Ab)"
      "rows_of_length (ambient_dim P) (map fst Abeq)"
    using to_Hrep_separate_rows unfolding wf_polyhedron_def by blast
  from r obtain A Aeq where "matrix RDF (map fst Ab) = Inr A" "mat_ring A = RDF"
    "matrix RDF (map fst Abeq) = Inr Aeq" "mat_ring Aeq = RDF"
    using matrix_of_rows by blast
  with s True show ?thesis by (simp add: polyhedron_to_Hrep_def vector_def)
next
  case False
  from assms obtain Ab where s: "to_Hrep_default (Hrepresentation P) = Inr Ab"
    and r: "rows_of_length (ambient_dim P) (map fst Ab)"
    using to_Hrep_default_rows unfolding wf_polyhedron_def by blast
  from r obtain A where "matrix RDF (map fst Ab) = Inr A" "mat_ring A = RDF"
    using matrix_of_rows by blast
  with s False show ?thesis by (simp add: polyhedron_to_Hrep_def vector_def)
qed

theorem polyhedron_to_Hrep_over_RDF_witness:
  "wf_polyhedron point_polyhedron \<and>
   base_ring point_polyhedron = QQ \<and>
   (\<exists>out. polyhedron_to_Hrep point_polyhedron False = Inr out \<and> out_rings out = [RDF, RDF]) \<and>
   (\<exists>out. polyhedron_to_Hrep point_polyhedron True = Inr out \<and>
      out_rings out = [RDF, RDF, RDF, RDF])"
proof -
  have wf: "wf_polyhedron point_polyhedron"
    by (simp add: wf_polyhedron_def point_polyhedron_def)
  show ?thesis
    using wf polyhedron_to_Hrep_over_RDF [OF wf, of False]
      polyhedron_to_Hrep_over_RDF [OF wf, of True]
    by (simp add: point_polyhedron_def)
qed

section \<open>Properties of \<open>polyhedron_from_Hrep\<close>\<close>

lemma polyhedron_from_Hrep_numpy_never_returns:
  "\<exists>e. polyhedron_from_Hrep Polyhedron (NumpyMatrix A) b R = Inl e"
  by (auto simp add: polyhedron_from_Hrep_def numpy_to_RDF_def numpy_to_QQ_def py_copy_def
      module_globals_def Let_def)

text \<open>
  Claim C5. The constructor is documented to accept numpy arrays. For a numpy array
  \<open>A\<close> with as many rows as \<open>b\<close> has entries, and either supported ring, the entries are
  converted and then the call of \<open>copy\<close>, a name the module never imports, raises
  \<open>NameError\<close>: no polyhedron is built.
\<close>

theorem polyhedron_from_Hrep_numpy_NameError:
  "R = RDF \<or> R = QQ \<Longrightarrow> length (arg_entries b) = length (nd_data A) \<Longrightarrow>
     polyhedron_from_Hrep Polyhedron (NumpyMatrix A) b R = Inl (NameError ''copy'')"
  by (auto simp add: polyhedron_from_Hrep_def numpy_to_RDF_def numpy_to_QQ_def py_copy_def
      module_globals_def Let_def)

theorem polyhedron_from_Hrep_numpy_NameError_witness:
  "polyhedron_from_Hrep transparent_Polyhedron
     (NumpyMatrix \<lparr>nd_shape1 = 1, nd_data = [[1]]\<rparr>) (NumpyVector [1]) RDF =
     Inl (NameError ''copy'') \<and>
   polyhedron_from_Hrep transparent_Polyhedron
     (NumpyMatrix \<lparr>nd_shape1 = 1, nd_data = [[1]]\<rparr>) (NumpyVector [1]) QQ =
     Inl (NameError ''copy'')"
  using polyhedron_from_Hrep_numpy_NameError
          [of RDF "NumpyVector [1]" "\<lparr>nd_shape1 = 1, nd_data = [[1]]\<rparr>" transparent_Polyhedron]
        polyhedron_from_Hrep_numpy_NameError
          [of QQ "NumpyVector [1]" "\<lparr>nd_shape1 = 1, nd_data = [[1]]\<rparr>" transparent_Polyhedron]
  by simp

text \<open>
  Claim C7. For every base ring other than \<open>RDF\<close> and \<open>QQ\<close> the constructor raises the
  error \<open>Base ring not supported\<close>, whatever \<open>A\<close> and \<open>b\<close> are, and returns no
  polyhedron.
\<close>

theorem polyhedron_from_Hrep_unsupported_ring:
  "R \<noteq> RDF \<Longrightarrow> R \<noteq> QQ \<Longrightarrow>
     polyhedron_from_Hrep Polyhedron A b R =
       Inl (ValueError ''Base ring not supported. Try with RDF or QQ.'')"
  by (simp add: polyhedron_from_Hrep_def)

theorem polyhedron_from_Hrep_unsupported_ring_witness:
  "OtherRing ''ZZ'' \<noteq> RDF \<and> OtherRing ''ZZ'' \<noteq> QQ \<and>
   polyhedron_from_Hrep transparent_Polyhedron
     (SageMatrix \<lparr>mat_ring = OtherRing ''ZZ'', mat_ncols = 1, mat_rows = [[1]]\<rparr>)
     (SageVector \<lparr>vec_ring = OtherRing ''ZZ'', vec_entries = [1]\<rparr>) (OtherRing ''ZZ'') =
     Inl (ValueError ''Base ring not supported. Try with RDF or QQ.'')"
  using polyhedron_from_Hrep_unsupported_ring [of "OtherRing ''ZZ''" transparent_Polyhedron]
  by simp

section \<open>Properties of \<open>chebyshev_center\<close>\<close>

text \<open>
  Claim C4. When \<open>A\<close> and \<open>b\<close> are given, by keyword or by position, and the number of
  rows of \<open>A\<close> differs from the length of \<open>b\<close>, the function returns the empty list and
  raises nothing; the program it created has no constraint and was never solved.
\<close>

theorem chebyshev_center_size_mismatch:
  assumes "nrows A \<noteq> length (vec_entries b)"
  shows "\<exists>p. chebyshev_center oracle None (Some (PyMatrix A)) (Some (PyVector b)) =
               (Inr EmptyList, Some p) \<and>
             chebyshev_center oracle (Some (PyMatrix A)) (Some (PyVector b)) None =
               (Inr EmptyList, Some p) \<and>
             lp_constraints p = [] \<and> lp_solve_calls p = 0"
  using assms
  by (simp add: chebyshev_center_def chebyshev_parse_def chebyshev_solve_def new_lp_def Let_def)

theorem chebyshev_center_size_mismatch_witness:
  "nrows interval_A \<noteq> length (vec_entries \<lparr>vec_ring = RDF, vec_entries = [1]\<rparr>) \<and>
   (\<exists>p. chebyshev_center failing_oracle None (Some (PyMatrix interval_A))
           (Some (PyVector \<lparr>vec_ring = RDF, vec_entries = [1]\<rparr>)) = (Inr EmptyList, Some p) \<and>
         chebyshev_center failing_oracle (Some (PyMatrix interval_A))
           (Some (PyVector \<lparr>vec_ring = RDF, vec_entries = [1]\<rparr>)) None = (Inr EmptyList, Some p) \<and>
         lp_constraints p = [] \<and> lp_solve_calls p = 0)"
proof -
  have h: "nrows interval_A \<noteq> length (vec_entries \<lparr>vec_ring = RDF, vec_entries = [1]\<rparr>)"
    by (simp add: nrows_def interval_A_def)
  show ?thesis
    using h chebyshev_center_size_mismatch [OF h, of failing_oracle] by blast
qed

section \<open>Properties of \<open>support_function\<close> and \<open>radius\<close>\<close>

text \<open>
  Claim C6. For a polyhedron object that reports itself empty, and every direction, the
  support function returns \<open>0\<close> and no linear program is created or solved.
\<close>

theorem support_function_empty_polyhedron:
  "is_empty Q \<Longrightarrow>
     support_function oracle (PolyObj Q) d return_xopt solver = (Inr IntZero, None)"
  by (simp add: support_function_def sf_Hrep_def)

theorem support_function_empty_polyhedron_witness:
  "is_empty empty_polyhedron \<and>
   support_function failing_oracle (PolyObj empty_polyhedron) [1] True ''GLPK'' =
     (Inr IntZero, None)"
  using support_function_empty_polyhedron
          [of empty_polyhedron failing_oracle "[1]" True "''GLPK''"]
  by (simp add: empty_polyhedron_def)

text \<open>
  Claim C10. For a polyhedron object the radius computation returns \<open>None\<close>: it
  computes nothing and raises nothing. A value is returned only for the list \<open>[A, b]\<close>.
\<close>

theorem radius_value_only_for_list:
  "radius oracle (PolyObj Q) = Inr None \<and>
   (radius oracle P = Inr (Some v) \<longrightarrow> (\<exists>A b. P = HrepList A b))"
  by (cases P) (simp_all add: radius_def)

lemma radius_interval: "radius interval_oracle (HrepList interval_A interval_b) = Inr (Some 1)"
  by (simp add: radius_def interval_A_def interval_b_def support_function_def sf_Hrep_def
      nrows_def support_lp_def new_lp_def interval_oracle_def unit_vec_def Let_def)

theorem radius_value_only_for_list_witness:
  "radius interval_oracle (PolyObj point_polyhedron) = Inr None \<and>
   radius interval_oracle (HrepList interval_A interval_b) = Inr (Some 1) \<and>
   (\<exists>A b. HrepList interval_A interval_b = HrepList A b)"
  using radius_value_only_for_list
          [of interval_oracle point_polyhedron "HrepList interval_A interval_b" 1]
        radius_interval
  by simp

section \<open>Properties of \<open>diameter_vertex_enumeration\<close>\<close>

lemma mem_cube_points:
  "v \<in> set (cube_points n s) \<longleftrightarrow> length v = n \<and> set v \<subseteq> {- s, s}"
proof (induction n arbitrary: v)
  case 0
  then show ?case by auto
next
  case (Suc n)
  show ?case
  proof (cases v)
    case Nil
    then show ?thesis by auto
  next
    case (Cons a w)
    then show ?thesis using Suc [of w] by auto
  qed
qed

lemma fold_max_Max: "fold max as (a::real) = Max (set (a # as))"
  by (rule Max.set_eq_fold [symmetric])

lemma norm_inf_le:
  assumes "v \<noteq> []" "\<forall>x\<in>set v. \<bar>x\<bar> \<le> B"
  shows "\<exists>dd. norm_p Infinity v = Inr dd \<and> dd \<le> B"
proof -
  from assms(1) obtain a as where v: "v = a # as" by (cases v) auto
  have "norm_p Infinity v = Inr (Max (set (map abs v)))"
    using v by (simp add: norm_p_def fold_max_Max)
  moreover have "Max (set (map abs v)) \<le> B"
    using assms v by (subst Max_le_iff) auto
  ultimately show ?thesis by blast
qed

lemma set_map2_sub_cube:
  "length v = length w \<Longrightarrow> set v \<subseteq> {- s, s} \<Longrightarrow> set w \<subseteq> {- s, s} \<Longrightarrow> 0 \<le> s \<Longrightarrow>
   \<forall>x\<in>set (vec_sub v w). \<bar>x\<bar> \<le> 2 * s"
  unfolding vec_sub_def
  by (induction v w rule: list_induct2) auto

lemma vec_sub_nonempty: "length v = length w \<Longrightarrow> v \<noteq> [] \<Longrightarrow> vec_sub v w \<noteq> []"
  by (cases v; cases w) (auto simp: vec_sub_def)

lemma cube_dist_inf:
  assumes "v \<in> set (cube_points n s)" "w \<in> set (cube_points n s)" "0 < n" "0 \<le> s"
  shows "\<exists>dd. norm_p Infinity (vec_sub v w) = Inr dd \<and> dd \<le> 2 * s"
proof -
  from assms have l: "length v = n" "length w = n" and sv: "set v \<subseteq> {- s, s}" "set w \<subseteq> {- s, s}"
    by (auto simp: mem_cube_points)
  have "vec_sub v w \<noteq> []" using l assms(3) by (intro vec_sub_nonempty) auto
  moreover have "\<forall>x\<in>set (vec_sub v w). \<bar>x\<bar> \<le> 2 * s"
    using set_map2_sub_cube l sv assms(4) by metis
  ultimately show ?thesis by (rule norm_inf_le)
qed

lemma sum_powr_le:
  "\<forall>x\<in>set u. \<bar>x\<bar> \<le> B \<Longrightarrow> 0 \<le> B \<Longrightarrow> (\<Sum>a\<leftarrow>map abs u. a powr 2) \<le> real (length u) * B\<^sup>2"
proof (induction u)
  case Nil
  then show ?case by simp
next
  case (Cons x u)
  have "\<bar>x\<bar> powr 2 = \<bar>x\<bar>\<^sup>2" by simp
  moreover have "\<bar>x\<bar>\<^sup>2 \<le> B\<^sup>2" using Cons.prems by (intro power_mono) auto
  ultimately show ?case using Cons by (simp add: algebra_simps)
qed

lemma norm_2_le:
  assumes "\<forall>x\<in>set u. \<bar>x\<bar> \<le> B" "0 \<le> B"
  shows "\<exists>dd. norm_p (Pnorm 2) u = Inr dd \<and> dd \<le> sqrt (real (length u)) * B"
proof -
  let ?S = "(\<Sum>a\<leftarrow>map abs u. a powr 2)"
  have S0: "0 \<le> ?S" by (intro sum_list_nonneg) auto
  have "norm_p (Pnorm 2) u = Inr (?S powr (1/2))" by (simp add: norm_p_def)
  moreover have "?S powr (1/2) = sqrt ?S" using S0 by (rule powr_half_sqrt)
  moreover have "sqrt ?S \<le> sqrt (real (length u) * B\<^sup>2)"
    using sum_powr_le [OF assms] by simp
  moreover have "sqrt (real (length u) * B\<^sup>2) = sqrt (real (length u)) * B"
    using assms(2) by (simp add: real_sqrt_mult)
  ultimately show ?thesis by simp
qed

lemma length_vec_sub: "length v = length w \<Longrightarrow> length (vec_sub v w) = length v"
  by (simp add: vec_sub_def)

lemma cube_dist_2:
  assumes "v \<in> set (cube_points n s)" "w \<in> set (cube_points n s)" "0 \<le> s"
  shows "\<exists>dd. norm_p (Pnorm 2) (vec_sub v w) = Inr dd \<and> dd \<le> sqrt (real n) * (2 * s)"
proof -
  from assms have l: "length v = n" "length w = n" and sv: "set v \<subseteq> {- s, s}" "set w \<subseteq> {- s, s}"
    by (auto simp: mem_cube_points)
  have "\<forall>x\<in>set (vec_sub v w). \<bar>x\<bar> \<le> 2 * s"
    using set_map2_sub_cube l sv assms(3) by metis
  from norm_2_le [OF this] assms(3) l show ?thesis by (simp add: length_vec_sub)
qed


lemma diameter_inner_bounds:
  assumes "\<forall>j\<in>set js. \<exists>dd. norm_p p (vec_sub (vlist ! i) (vlist ! j)) = Inr dd \<and> dd \<le> B"
    and "diam \<le> B"
  shows "\<exists>r. diameter_inner p vlist i js diam = Inr r \<and> diam \<le> r \<and> r \<le> B"
  using assms
proof (induction js arbitrary: diam)
  case Nil
  then show ?case by simp
next
  case (Cons j js)
  from Cons.prems(1) obtain dd where dd: "norm_p p (vec_sub (vlist ! i) (vlist ! j)) = Inr dd"
    "dd \<le> B" by auto
  have "max diam dd \<le> B" using dd(2) Cons.prems(2) by simp
  with Cons.IH [of "max diam dd"] Cons.prems(1)
  obtain r where "diameter_inner p vlist i js (max diam dd) = Inr r" "max diam dd \<le> r" "r \<le> B"
    by auto
  with dd show ?case by simp
qed

lemma diameter_inner_attains:
  assumes "\<forall>j\<in>set js. \<exists>dd. norm_p p (vec_sub (vlist ! i) (vlist ! j)) = Inr dd \<and> dd \<le> B"
    and "diam \<le> B"
    and "j0 \<in> set js"
    and "norm_p p (vec_sub (vlist ! i) (vlist ! j0)) = Inr B"
  shows "diameter_inner p vlist i js diam = Inr B"
  using assms
proof (induction js arbitrary: diam)
  case Nil
  then show ?case by simp
next
  case (Cons j js)
  from Cons.prems(1) obtain dd where dd: "norm_p p (vec_sub (vlist ! i) (vlist ! j)) = Inr dd"
    "dd \<le> B" by auto
  have le: "max diam dd \<le> B" using dd(2) Cons.prems(2) by simp
  have rest: "\<forall>j\<in>set js. \<exists>dd. norm_p p (vec_sub (vlist ! i) (vlist ! j)) = Inr dd \<and> dd \<le> B"
    using Cons.prems(1) by simp
  show ?case
  proof (cases "j0 = j")
    case True
    with dd Cons.prems(4) have "dd = B" by simp
    then have "max diam dd = B" using Cons.prems(2) by simp
    moreover from diameter_inner_bounds [OF rest, of B] obtain r where
      "diameter_inner p vlist i js B = Inr r" "B \<le> r" "r \<le> B" by auto
    ultimately show ?thesis using dd by simp
  next
    case False
    then have "j0 \<in> set js" using Cons.prems(3) by simp
    from Cons.IH [OF rest le this Cons.prems(4)] dd show ?thesis by simp
  qed
qed

lemma diameter_outer_bounds:
  assumes "\<forall>i\<in>set is. \<forall>j\<in>set [Suc i..<n].
             \<exists>dd. norm_p p (vec_sub (vlist ! i) (vlist ! j)) = Inr dd \<and> dd \<le> B"
    and "diam \<le> B"
  shows "\<exists>r. diameter_outer p vlist n is diam = Inr r \<and> diam \<le> r \<and> r \<le> B"
  using assms
proof (induction "is" arbitrary: diam)
  case Nil
  then show ?case by simp
next
  case (Cons i "is")
  have "\<forall>j\<in>set [Suc i..<n]. \<exists>dd. norm_p p (vec_sub (vlist ! i) (vlist ! j)) = Inr dd \<and> dd \<le> B"
    using Cons.prems(1) by simp
  from diameter_inner_bounds [OF this Cons.prems(2)] obtain r1 where
    r1: "diameter_inner p vlist i [Suc i..<n] diam = Inr r1" "diam \<le> r1" "r1 \<le> B" by auto
  have rest: "\<forall>i\<in>set is. \<forall>j\<in>set [Suc i..<n].
      \<exists>dd. norm_p p (vec_sub (vlist ! i) (vlist ! j)) = Inr dd \<and> dd \<le> B"
    using Cons.prems(1) by simp
  from Cons.IH [OF rest r1(3)] obtain r where
    "diameter_outer p vlist n is r1 = Inr r" "r1 \<le> r" "r \<le> B" by auto
  with r1 show ?case by simp
qed

lemma diameter_outer_attains:
  assumes "\<forall>i\<in>set is. \<forall>j\<in>set [Suc i..<n].
             \<exists>dd. norm_p p (vec_sub (vlist ! i) (vlist ! j)) = Inr dd \<and> dd \<le> B"
    and "diam \<le> B"
    and "i0 \<in> set is" and "j0 \<in> set [Suc i0..<n]"
    and "norm_p p (vec_sub (vlist ! i0) (vlist ! j0)) = Inr B"
  shows "diameter_outer p vlist n is diam = Inr B"
  using assms
proof (induction "is" arbitrary: diam)
  case Nil
  then show ?case by simp
next
  case (Cons i "is")
  have inner: "\<forall>j\<in>set [Suc i..<n].
      \<exists>dd. norm_p p (vec_sub (vlist ! i) (vlist ! j)) = Inr dd \<and> dd \<le> B"
    using Cons.prems(1) by simp
  have rest: "\<forall>i\<in>set is. \<forall>j\<in>set [Suc i..<n].
      \<exists>dd. norm_p p (vec_sub (vlist ! i) (vlist ! j)) = Inr dd \<and> dd \<le> B"
    using Cons.prems(1) by simp
  show ?case
  proof (cases "i0 = i")
    case True
    have "diameter_inner p vlist i [Suc i..<n] diam = Inr B"
      using diameter_inner_attains [OF inner Cons.prems(2)] Cons.prems(4,5) True by simp
    moreover from diameter_outer_bounds [OF rest, of B] obtain r where
      "diameter_outer p vlist n is B = Inr r" "B \<le> r" "r \<le> B" by auto
    ultimately show ?thesis by simp
  next
    case False
    then have mem: "i0 \<in> set is" using Cons.prems(3) by simp
    from diameter_inner_bounds [OF inner Cons.prems(2)] obtain r1 where
      r1: "diameter_inner p vlist i [Suc i..<n] diam = Inr r1" "r1 \<le> B" by auto
    from Cons.IH [OF rest r1(2) mem Cons.prems(4,5)] r1 show ?thesis by simp
  qed
qed

lemma diameter_by_bound_and_pair:
  assumes bound: "\<And>i j. i < j \<Longrightarrow> j < length (vertices_list P) \<Longrightarrow>
       \<exists>dd. norm_p p (vec_sub (vertices_list P ! i) (vertices_list P ! j)) = Inr dd \<and> dd \<le> B"
    and "0 \<le> B" and "i0 < j0" and "j0 < length (vertices_list P)"
    and "norm_p p (vec_sub (vertices_list P ! i0) (vertices_list P ! j0)) = Inr B"
  shows "diameter_vertex_enumeration P p = Inr B"
proof -
  let ?vl = "vertices_list P"
  have b: "\<forall>i\<in>set [0..<length ?vl]. \<forall>j\<in>set [Suc i..<length ?vl].
      \<exists>dd. norm_p p (vec_sub (?vl ! i) (?vl ! j)) = Inr dd \<and> dd \<le> B"
    using bound by auto
  have "diameter_outer p ?vl (length ?vl) [0..<length ?vl] 0 = Inr B"
    using diameter_outer_attains [OF b assms(2), of i0 j0] assms(3,4,5) by simp
  then show ?thesis by (simp add: diameter_vertex_enumeration_def Let_def)
qed

lemma fold_max_replicate: "(max (x::real) ^^ m) x = x"
  by (induction m) auto

lemma vec_sub_replicate: "vec_sub (replicate n a) (replicate n b) = replicate n (a - b)"
  by (simp add: vec_sub_def)

lemma norm_inf_replicate: "0 < n \<Longrightarrow> norm_p Infinity (replicate n c) = Inr \<bar>c\<bar>"
  by (cases n) (simp_all add: norm_p_def fold_max_replicate)

lemma norm_2_replicate: "norm_p (Pnorm 2) (replicate n c) = Inr (sqrt (real n) * \<bar>c\<bar>)"
proof -
  have "(\<Sum>a\<leftarrow>map abs (replicate n c). a powr 2) = real n * \<bar>c\<bar>\<^sup>2"
    by (simp add: sum_list_replicate)
  moreover have "(real n * \<bar>c\<bar>\<^sup>2) powr (1/2) = sqrt (real n * \<bar>c\<bar>\<^sup>2)"
    by (rule powr_half_sqrt) simp
  ultimately show ?thesis by (simp add: norm_p_def real_sqrt_mult)
qed

lemma corners_in_cube:
  "replicate n s \<in> set (cube_points n s)" "replicate n (- s) \<in> set (cube_points n s)"
  by (auto simp: mem_cube_points)

lemma cube_diameter:
  assumes verts: "set (vertices_list P) = set (cube_points n s)" and n: "0 < n" and s: "0 < s"
    and bound: "\<And>v w. v \<in> set (cube_points n s) \<Longrightarrow> w \<in> set (cube_points n s) \<Longrightarrow>
        \<exists>dd. norm_p p (vec_sub v w) = Inr dd \<and> dd \<le> B"
    and corner: "\<And>c. norm_p p (replicate n c) = Inr (k * \<bar>c\<bar>)" and B: "B = k * (2 * s)" "0 \<le> k"
  shows "diameter_vertex_enumeration P p = Inr B"
proof -
  let ?vl = "vertices_list P"
  from corners_in_cube [of n s] verts obtain a b where
    a: "a < length ?vl" "?vl ! a = replicate n s" and b: "b < length ?vl" "?vl ! b = replicate n (- s)"
    by (metis in_set_conv_nth)
  have ne: "a \<noteq> b"
  proof
    assume "a = b"
    with a b have "replicate n s = replicate n (- s)" by simp
    with n s show False by (cases n) auto
  qed
  have pair: "\<And>i j. i < j \<Longrightarrow> j < length ?vl \<Longrightarrow>
       \<exists>dd. norm_p p (vec_sub (?vl ! i) (?vl ! j)) = Inr dd \<and> dd \<le> B"
  proof -
    fix i j assume "i < j" "j < length ?vl"
    then have "?vl ! i \<in> set ?vl" "?vl ! j \<in> set ?vl" by auto
    with verts bound show "\<exists>dd. norm_p p (vec_sub (?vl ! i) (?vl ! j)) = Inr dd \<and> dd \<le> B"
      by simp
  qed
  have B0: "0 \<le> B" using B s by simp
  have d1: "norm_p p (vec_sub (replicate n s) (replicate n (- s))) = Inr B"
    using corner [of "s - (- s)"] s B by (simp add: vec_sub_replicate)
  have d2: "norm_p p (vec_sub (replicate n (- s)) (replicate n s)) = Inr B"
    using corner [of "- s - s"] s B by (simp add: vec_sub_replicate)
  from ne consider "a < b" | "b < a" by linarith
  then show ?thesis
  proof cases
    case 1
    show ?thesis
      by (rule diameter_by_bound_and_pair [OF pair B0 1 b(1)]) (simp_all add: a b d1)
  next
    case 2
    show ?thesis
      by (rule diameter_by_bound_and_pair [OF pair B0 2 a(1)]) (simp_all add: a b d2)
  qed
qed

lemma cube_diameter_inf:
  assumes "set (vertices_list P) = set (cube_points n s)" "0 < n" "0 < s"
  shows "diameter_vertex_enumeration P Infinity = Inr (2 * s)"
proof (rule cube_diameter [OF assms, where k = 1])
  fix v w assume "v \<in> set (cube_points n s)" "w \<in> set (cube_points n s)"
  then show "\<exists>dd. norm_p Infinity (vec_sub v w) = Inr dd \<and> dd \<le> 2 * s"
    using cube_dist_inf assms by simp
next
  fix c show "norm_p Infinity (replicate n c) = Inr (1 * \<bar>c\<bar>)"
    using norm_inf_replicate assms(2) by simp
qed simp_all

lemma cube_diameter_2:
  assumes "set (vertices_list P) = set (cube_points n s)" "0 < n" "0 < s"
  shows "diameter_vertex_enumeration P (Pnorm 2) = Inr (sqrt (real n) * (2 * s))"
proof (rule cube_diameter [OF assms, where k = "sqrt (real n)"])
  fix v w assume "v \<in> set (cube_points n s)" "w \<in> set (cube_points n s)"
  then show "\<exists>dd. norm_p (Pnorm 2) (vec_sub v w) = Inr dd \<and> dd \<le> sqrt (real n) * (2 * s)"
    using cube_dist_2 assms by simp
next
  fix c show "norm_p (Pnorm 2) (replicate n c) = Inr (sqrt (real n) * \<bar>c\<bar>)"
    by (rule norm_2_replicate)
qed simp_all

text \<open>
  Claim C3, as amended. For the cube \<open>[-7, 7]\<^sup>5\<close>, whatever the order in which the
  backend lists its vertices, the diameter is \<open>14\<close> in the supremum norm and
  \<open>14 \<surd>5\<close> in the Euclidean norm.
\<close>

theorem diameter_scaled_hypercube:
  assumes "set (vertices_list P) = set (cube_points 5 7)"
  shows "diameter_vertex_enumeration P Infinity = Inr 14 \<and>
         diameter_vertex_enumeration P (Pnorm 2) = Inr (14 * sqrt 5)"
  using cube_diameter_inf [OF assms] cube_diameter_2 [OF assms] by simp

theorem diameter_scaled_hypercube_witness:
  "set (vertices_list (scaled_hypercube 5 7)) = set (cube_points 5 7) \<and>
   diameter_vertex_enumeration (scaled_hypercube 5 7) Infinity = Inr 14 \<and>
   diameter_vertex_enumeration (scaled_hypercube 5 7) (Pnorm 2) = Inr (14 * sqrt 5)"
proof -
  have h: "set (vertices_list (scaled_hypercube 5 7)) = set (cube_points 5 7)"
    by (simp add: scaled_hypercube_def)
  show ?thesis using h diameter_scaled_hypercube [OF h] by blast
qed

text \<open>
  The claim as stated gives \<open>14 \<surd>2\<close> for the Euclidean norm; that is the value of the
  docstring's example in dimension \<open>2\<close>, and it is not what the code returns in
  dimension \<open>5\<close>.
\<close>

theorem diameter_scaled_hypercube_counterexample:
  "diameter_vertex_enumeration (scaled_hypercube 5 7) (Pnorm 2) \<noteq> Inr (14 * sqrt 2)"
proof -
  have h: "set (vertices_list (scaled_hypercube 5 7)) = set (cube_points 5 7)"
    by (simp add: scaled_hypercube_def)
  have "diameter_vertex_enumeration (scaled_hypercube 5 7) (Pnorm 2) = Inr (sqrt (real 5) * (2 * 7))"
    by (rule cube_diameter_2 [OF h]) simp_all
  moreover have "sqrt 5 \<noteq> sqrt (2::real)" by simp
  ultimately show ?thesis by simp
qed

section \<open>The support function as a function of the direction\<close>



lemma lp_feasible_support_lp:
  "lp_feasible (support_lp A b d s) x \<longleftrightarrow>
     length x = max (length d) (mat_ncols A) \<and>
     constraints_hold (zip (mat_rows A) (vec_entries b)) x"
  by (simp add: lp_feasible_def support_lp_def new_lp_def)

lemma lp_objective_support_lp: "lp_objective (support_lp A b d s) = d"
  by (simp add: support_lp_def new_lp_def)


lemma lp_optimal_value_unique:
  assumes "lp_optimal p r" "lp_optimal p r'"
  shows "fst r = fst r'"
proof -
  from assms have "fst r \<le> fst r'" "fst r' \<le> fst r"
    unfolding lp_optimal_def by metis+
  then show ?thesis by simp
qed

lemma exact_on_returns:
  assumes "exact_on oracle p" "lp_optimal p r"
  shows "\<exists>v x. oracle p = Inr (v, x) \<and> lp_optimal p (v, x) \<and> v = fst r"
proof (cases "oracle p")
  case (Inl e)
  with assms show ?thesis by (cases r) (auto simp: exact_on_def)
next
  case (Inr r')
  with assms(1) have o: "lp_optimal p r'" by (simp add: exact_on_def)
  from lp_optimal_value_unique [OF o assms(2)] o Inr show ?thesis
    by (cases r') auto
qed



lemma exact_at_Some:
  "solver_exact_at oracle P d s \<Longrightarrow> sf_Hrep P = Inr (Some (A, b)) \<Longrightarrow>
     exact_on oracle (support_lp A b d s)"
  by (simp add: solver_exact_at_def)





subsection \<open>A feasible program with a bounded objective has an optimal solution\<close>

lemma length_fit [simp]: "length (fit n a) = n"
  by (simp add: fit_def)

lemma length_scale_dir [simp]: "length (scale_dir c a) = length a"
  by (simp add: scale_dir_def)

lemma dot_Nil_left [simp]: "dot [] x = 0"
  by simp

lemma dot_Nil_right [simp]: "dot a [] = 0"
  by (cases a) simp_all





















subsection \<open>Homogeneity and sub-additivity\<close>















section \<open>The worked example of \<open>BoxInfty\<close> and \<open>support_function\<close>\<close>

lemma length3: "length x = 3 \<longleftrightarrow> (\<exists>a b c. x = [a, b, c])"
  by (auto simp: length_Suc_conv numeral_3_eq_3)

lemma BoxInfty_Hrep_example:
  "BoxInfty_Hrep (Some (PyNumList [1, 2, 3])) (Some (PyNum 1)) None QQ = Inr (box_A, box_b)"
  by (simp add: BoxInfty_Hrep_def BoxInfty_guess_def ring_cast_def unit_vec_def neg_def
      box_A_def box_b_def Let_def numeral_3_eq_3)

lemma in_Hrep_box: "in_Hrep box_A box_b x \<longleftrightarrow> in_example_box x"
proof (cases "length x = 3")
  case True
  then obtain a b c where "x = [a, b, c]" by (auto simp: length3)
  then show ?thesis by (auto simp: in_Hrep_def box_A_def box_b_def in_example_box_def)
next
  case False
  then have "\<not> in_example_box x"
    by (auto simp: in_example_box_def length3 split: list.splits)
  with False show ?thesis by (simp add: in_Hrep_def box_A_def)
qed

lemma in_example_box_length: "in_example_box x \<Longrightarrow> length x = 3"
  by (auto simp: in_example_box_def split: list.splits)

lemma dot_neg: "dot (neg a) x = - dot a x"
  unfolding neg_def by (induction a x rule: dot.induct) simp_all

lemma gens_hold_iff: "gens_hold gs x \<longleftrightarrow> (\<forall>g\<in>set gs. gen_holds g x)"
  by (induction gs) auto

lemma gens_of_length_iff: "gens_of_length n gs \<longleftrightarrow> (\<forall>g\<in>set gs. length (gen_vector g) = n)"
  by (induction gs) auto

lemma sf_rows_constraints:
  "gens_of_length (Suc n) gs \<Longrightarrow>
     \<exists>Ab. sf_rows n gs = Inr Ab \<and> length Ab = length gs \<and>
          (\<forall>x. constraints_hold (zip (map fst Ab) (map snd Ab)) x \<longleftrightarrow> (\<forall>g\<in>set gs. gen_ineq g x))"
proof (induction gs)
  case Nil
  have "\<And>x. constraints_hold [] x" by simp
  then show ?case by auto
next
  case (Cons g gs)
  then obtain Ab where Ab: "sf_rows n gs = Inr Ab" "length Ab = length gs"
    "\<forall>x. constraints_hold (zip (map fst Ab) (map snd Ab)) x \<longleftrightarrow> (\<forall>g\<in>set gs. gen_ineq g x)"
    by auto
  from Cons.prems obtain \<beta> a where v: "gen_vector g = \<beta> # a" "length a = n"
    by (cases "gen_vector g") auto
  show ?case using Ab v by (auto simp: gen_ineq_def dot_neg)
qed

lemma equation_trivial_on_box:
  assumes "length (gen_vector g) = 4" "is_equation g"
    and "\<And>y. in_example_box y \<Longrightarrow> gen_holds g y"
    and "length x = 3"
  shows "gen_holds g x"
proof -
  from assms(1) obtain \<beta> a1 a2 a3 where v: "gen_vector g = [\<beta>, a1, a2, a3]"
    by (auto simp: length_Suc_conv numeral_eq_Suc)
  have "in_example_box [1, 2, 3]" "in_example_box [2, 2, 3]" "in_example_box [1, 3, 3]"
    "in_example_box [1, 2, 4]"
    by (simp_all add: in_example_box_def)
  from this [THEN assms(3)] v assms(2)
  have "a1 + 2 * a2 + 3 * a3 + \<beta> = 0" "2 * a1 + 2 * a2 + 3 * a3 + \<beta> = 0"
    "a1 + 3 * a2 + 3 * a3 + \<beta> = 0" "a1 + 2 * a2 + 4 * a3 + \<beta> = 0"
    by (simp_all add: gen_holds_def algebra_simps)
  then have "a1 = 0" "a2 = 0" "a3 = 0" "\<beta> = 0" by linarith+
  moreover from assms(4) obtain x1 x2 x3 where "x = [x1, x2, x3]" by (auto simp: length3)
  ultimately show ?thesis using v assms(2) by (simp add: gen_holds_def)
qed

lemma gen_holds_ineq: "gen_vector g \<noteq> [] \<Longrightarrow> gen_holds g x \<Longrightarrow> gen_ineq g x"
  by (cases "gen_vector g") (auto simp: gen_holds_def gen_ineq_def split: if_splits)

lemma gen_ineq_holds: "gen_vector g \<noteq> [] \<Longrightarrow> \<not> is_equation g \<Longrightarrow> gen_ineq g x \<Longrightarrow> gen_holds g x"
  by (cases "gen_vector g") (auto simp: gen_holds_def gen_ineq_def)

lemma box_polyhedron_ineqs:
  assumes rep: "represents P box_A box_b" and len: "length x = 3"
  shows "(\<forall>g\<in>set (Hrepresentation P). gen_ineq g x) \<longleftrightarrow> in_example_box x"
proof -
  from rep have dim: "ambient_dim P = 3"
    by (simp add: represents_def box_A_def)
  from rep have "gens_of_length (Suc (ambient_dim P)) (Hrepresentation P)"
    unfolding represents_def wf_polyhedron_def by blast
  with dim have wf: "gens_of_length 4 (Hrepresentation P)" by simp
  from rep have pts: "\<And>y. in_polyhedron P y \<longleftrightarrow> in_example_box y"
    by (simp add: represents_def in_Hrep_box)
  from wf have l4: "\<And>g. g \<in> set (Hrepresentation P) \<Longrightarrow> length (gen_vector g) = 4"
    by (simp add: gens_of_length_iff)
  then have ne: "\<And>g. g \<in> set (Hrepresentation P) \<Longrightarrow> gen_vector g \<noteq> []" by fastforce
  have on_box: "\<And>g y. g \<in> set (Hrepresentation P) \<Longrightarrow> in_example_box y \<Longrightarrow> gen_holds g y"
    using pts by (auto simp: in_polyhedron_def gens_hold_iff)
  show ?thesis
  proof
    assume a: "\<forall>g\<in>set (Hrepresentation P). gen_ineq g x"
    have "\<forall>g\<in>set (Hrepresentation P). gen_holds g x"
    proof
      fix g assume g: "g \<in> set (Hrepresentation P)"
      show "gen_holds g x"
      proof (cases "is_equation g")
        case True
        show ?thesis
          by (rule equation_trivial_on_box [OF l4 [OF g] True on_box [OF g] len])
      next
        case False
        from gen_ineq_holds [OF ne [OF g] False] a g show ?thesis by blast
      qed
    qed
    then have "in_polyhedron P x" using len dim by (simp add: in_polyhedron_def gens_hold_iff)
    then show "in_example_box x" by (simp add: pts)
  next
    assume "in_example_box x"
    then show "\<forall>g\<in>set (Hrepresentation P). gen_ineq g x"
      using on_box gen_holds_ineq ne by blast
  qed
qed

lemma box_polyhedron_sf_Hrep:
  assumes rep: "represents P box_A box_b"
  shows "\<exists>A b. sf_Hrep (PolyObj P) = Inr (Some (A, b)) \<and> nrows A = length (vec_entries b) \<and>
           mat_ncols A = 3 \<and>
           (\<forall>x. length x = 3 \<longrightarrow>
              (constraints_hold (zip (mat_rows A) (vec_entries b)) x \<longleftrightarrow> in_example_box x))"
proof -
  from rep have dim: "ambient_dim P = 3"
    by (simp add: represents_def box_A_def)
  from rep have "gens_of_length (Suc (ambient_dim P)) (Hrepresentation P)"
    unfolding represents_def wf_polyhedron_def by blast
  then have wf: "gens_of_length (Suc 3) (Hrepresentation P)" unfolding dim .
  from rep have pts: "\<And>y. in_polyhedron P y \<longleftrightarrow> in_example_box y"
    and emp: "is_empty P \<longleftrightarrow> \<not> (\<exists>x. in_polyhedron P x)"
    by (simp_all add: represents_def in_Hrep_box)
  have "in_example_box [2, 3, 4]" by (simp add: in_example_box_def)
  then have ne: "\<not> is_empty P" using emp pts by blast
  have "\<not> in_example_box [100, 0, 0]" by (simp add: in_example_box_def)
  then have "\<not> in_polyhedron P [100, 0, 0]" by (simp add: pts)
  then have "Hrepresentation P \<noteq> []" using dim by (auto simp: in_polyhedron_def)
  then obtain g0 gs where gs: "Hrepresentation P = g0 # gs" by (cases "Hrepresentation P") auto
  with wf obtain \<beta>0 tail0 where g0: "gen_vector g0 = \<beta>0 # tail0" "length tail0 = 3"
    by (cases "gen_vector g0") auto
  from sf_rows_constraints [OF wf] obtain Ab where
    Ab: "sf_rows 3 (Hrepresentation P) = Inr Ab" "length Ab = length (Hrepresentation P)"
    "\<forall>x. constraints_hold (zip (map fst Ab) (map snd Ab)) x \<longleftrightarrow>
         (\<forall>g\<in>set (Hrepresentation P). gen_ineq g x)"
    by blast
  have "sf_Hrep (PolyObj P) =
      Inr (Some (\<lparr>mat_ring = base_ring P, mat_ncols = 3, mat_rows = map fst Ab\<rparr>,
                 \<lparr>vec_ring = base_ring P, vec_entries = map snd Ab\<rparr>))"
    using ne gs g0 Ab(1) by (simp add: sf_Hrep_def Let_def)
  moreover have "\<forall>x. length x = 3 \<longrightarrow>
      (constraints_hold (zip (map fst Ab) (map snd Ab)) x \<longleftrightarrow> in_example_box x)"
    using Ab(3) box_polyhedron_ineqs [OF rep] by simp
  ultimately show ?thesis by (simp add: nrows_def)
qed

lemma box_sum_le: "in_example_box y \<Longrightarrow> dot [1, 1, 1] y \<le> 9"
  by (auto simp: in_example_box_def split: list.splits)

lemma box_sum_max: "in_example_box y \<Longrightarrow> dot [1, 1, 1] y = 9 \<Longrightarrow> y = [2, 3, 4]"
  by (auto simp: in_example_box_def split: list.splits)

lemma support_function_box_core:
  assumes rep: "represents P box_A box_b"
    and exact: "solver_exact_at oracle (PolyObj P) [1, 1, 1] s"
  shows "fst (support_function oracle (PolyObj P) [1, 1, 1] True s) = Inr (OvalXopt 9 [2, 3, 4])"
    and "fst (support_function oracle (PolyObj P) [1, 1, 1] False s) = Inr (Oval 9)"
proof -
  from box_polyhedron_sf_Hrep [OF rep] obtain A b where
    h: "sf_Hrep (PolyObj P) = Inr (Some (A, b))" "nrows A = length (vec_entries b)"
    "mat_ncols A = 3"
    and c: "\<And>x. length x = 3 \<Longrightarrow>
       (constraints_hold (zip (mat_rows A) (vec_entries b)) x \<longleftrightarrow> in_example_box x)"
    by blast
  let ?p = "support_lp A b [1, 1, 1] s"
  have feas: "\<And>x. lp_feasible ?p x \<longleftrightarrow> in_example_box x"
    using c h(3) in_example_box_length by (auto simp: lp_feasible_support_lp)
  have "in_example_box [2, 3, 4]" by (simp add: in_example_box_def)
  then have opt: "lp_optimal ?p (9, [2, 3, 4])"
    using box_sum_le by (simp add: lp_optimal_def feas lp_objective_support_lp)
  from exact_on_returns [OF exact_at_Some [OF exact h(1)] opt]
  obtain x where o: "oracle ?p = Inr (9, x)" and ox: "lp_optimal ?p (9, x)" by auto
  from ox have "in_example_box x" "dot [1, 1, 1] x = 9"
    by (simp_all add: lp_optimal_def feas lp_objective_support_lp)
  then have "x = [2, 3, 4]" by (rule box_sum_max)
  with o h show "fst (support_function oracle (PolyObj P) [1, 1, 1] True s) =
      Inr (OvalXopt 9 [2, 3, 4])"
    and "fst (support_function oracle (PolyObj P) [1, 1, 1] False s) = Inr (Oval 9)"
    by (simp_all add: support_function_def Let_def)
qed

text \<open>
  Claim C2, as amended. For the box that \<open>BoxInfty\<close> builds from the center
  \<open>(1, 2, 3)\<close> and the radius \<open>1\<close>, whatever generators the backend chooses to describe
  it, the support function in the direction \<open>(1, 1, 1)\<close> is \<open>9\<close>, and with
  \<open>return_xopt\<close> the optimiser returned is \<open>(2, 3, 4)\<close>.
\<close>

theorem support_function_box_example:
  assumes "BoxInfty Polyhedron (Some (PyNumList [1, 2, 3])) (Some (PyNum 1)) None QQ False =
             Inr (BoxPolyhedron P)"
    and "BoxInfty Polyhedron (Some (PyNumList [1, 2, 3])) (Some (PyNum 1)) None QQ True =
             Inr (BoxHrep A b)"
    and "represents P A b"
    and "solver_exact_at oracle (PolyObj P) [1, 1, 1] ''GLPK''"
  shows "fst (support_function oracle (PolyObj P) [1, 1, 1] True ''GLPK'') =
           Inr (OvalXopt 9 [2, 3, 4]) \<and>
         fst (support_function oracle (PolyObj P) [1, 1, 1] False ''GLPK'') = Inr (Oval 9)"
proof -
  from assms(2) have "A = box_A" "b = box_b"
    by (simp_all add: BoxInfty_def BoxInfty_Hrep_example)
  with assms(3) have "represents P box_A box_b" by simp
  from support_function_box_core [OF this assms(4)] show ?thesis by simp
qed

lemma BoxInfty_transparent:
  "BoxInfty transparent_Polyhedron (Some (PyNumList [1, 2, 3])) (Some (PyNum 1)) None QQ False =
     Inr (BoxPolyhedron example_box)"
  by (simp add: BoxInfty_def BoxInfty_Hrep_example polyhedron_from_Hrep_def from_Hrep_sage_def
      box_A_def box_b_def neg_def transparent_Polyhedron_def example_box_def)

lemma in_polyhedron_example_box: "in_polyhedron example_box x \<longleftrightarrow> in_example_box x"
proof (cases "length x = 3")
  case True
  then obtain a b c where "x = [a, b, c]" by (auto simp: length3)
  then show ?thesis
    by (auto simp: in_polyhedron_def example_box_def gen_holds_def in_example_box_def)
next
  case False
  then have "\<not> in_example_box x" using in_example_box_length by blast
  with False show ?thesis by (simp add: in_polyhedron_def example_box_def)
qed

lemma represents_example_box: "represents example_box box_A box_b"
proof -
  have "in_example_box [2, 3, 4]" by (simp add: in_example_box_def)
  then have "\<exists>x. in_polyhedron example_box x" using in_polyhedron_example_box by blast
  moreover have "\<not> is_empty example_box" "ambient_dim example_box = mat_ncols box_A"
    "wf_polyhedron example_box"
    by (simp_all add: example_box_def box_A_def wf_polyhedron_def)
  ultimately show ?thesis
    by (simp add: represents_def in_polyhedron_example_box in_Hrep_box)
qed

lemma box_oracle_exact: "solver_exact_at box_oracle (PolyObj example_box) [1, 1, 1] s"
proof -
  from box_polyhedron_sf_Hrep [OF represents_example_box] obtain A b where
    h: "sf_Hrep (PolyObj example_box) = Inr (Some (A, b))" "mat_ncols A = 3"
    and c: "\<And>x. length x = 3 \<Longrightarrow>
       (constraints_hold (zip (mat_rows A) (vec_entries b)) x \<longleftrightarrow> in_example_box x)"
    by blast
  have feas: "\<And>x. lp_feasible (support_lp A b [1, 1, 1] s) x \<longleftrightarrow> in_example_box x"
    using c h(2) in_example_box_length by (auto simp: lp_feasible_support_lp)
  have "in_example_box [2, 3, 4]" by (simp add: in_example_box_def)
  then have "lp_optimal (support_lp A b [1, 1, 1] s) (9, [2, 3, 4])"
    using box_sum_le by (simp add: lp_optimal_def feas lp_objective_support_lp)
  with h(1) show ?thesis by (simp add: solver_exact_at_def exact_on_def box_oracle_def)
qed

theorem support_function_box_example_witness:
  "BoxInfty transparent_Polyhedron (Some (PyNumList [1, 2, 3])) (Some (PyNum 1)) None QQ False =
     Inr (BoxPolyhedron example_box) \<and>
   BoxInfty transparent_Polyhedron (Some (PyNumList [1, 2, 3])) (Some (PyNum 1)) None QQ True =
     Inr (BoxHrep box_A box_b) \<and>
   represents example_box box_A box_b \<and>
   solver_exact_at box_oracle (PolyObj example_box) [1, 1, 1] ''GLPK'' \<and>
   fst (support_function box_oracle (PolyObj example_box) [1, 1, 1] True ''GLPK'') =
     Inr (OvalXopt 9 [2, 3, 4]) \<and>
   fst (support_function box_oracle (PolyObj example_box) [1, 1, 1] False ''GLPK'') = Inr (Oval 9)"
proof -
  have h2: "BoxInfty transparent_Polyhedron (Some (PyNumList [1, 2, 3])) (Some (PyNum 1)) None
      QQ True = Inr (BoxHrep box_A box_b)"
    by (simp add: BoxInfty_def BoxInfty_Hrep_example)
  show ?thesis
    using support_function_box_example
            [OF BoxInfty_transparent h2 represents_example_box box_oracle_exact]
          BoxInfty_transparent h2 represents_example_box box_oracle_exact
    by simp
qed

text \<open>
  The claim as stated names \<open>(2, 2, 2)\<close> as the optimiser: no exact solver makes the
  code return it, since \<open>(2, 2, 2)\<close> has the value \<open>6\<close> and \<open>(2, 3, 4)\<close> is in the box.
\<close>

theorem support_function_box_optimizer_counterexample:
  "BoxInfty transparent_Polyhedron (Some (PyNumList [1, 2, 3])) (Some (PyNum 1)) None QQ False =
     Inr (BoxPolyhedron example_box) \<and>
   \<not> (\<exists>solve. solver_exact_at solve (PolyObj example_box) [1, 1, 1] ''GLPK'' \<and>
         fst (support_function solve (PolyObj example_box) [1, 1, 1] True ''GLPK'') =
           Inr (OvalXopt 9 [2, 2, 2]))"
proof -
  have "\<And>solve. solver_exact_at solve (PolyObj example_box) [1, 1, 1] ''GLPK'' \<Longrightarrow>
      fst (support_function solve (PolyObj example_box) [1, 1, 1] True ''GLPK'') \<noteq>
        Inr (OvalXopt 9 [2, 2, 2])"
    using support_function_box_core(1) [OF represents_example_box] by simp
  then show ?thesis using BoxInfty_transparent by blast
qed

end
